theory Spec2Isabelle
  imports Main
begin

section \<open>The room store (backend/database.py)\<close>

text \<open>
  The four SQLite tables of \<^verbatim>\<open>Database.create_tables\<close>, each as the list of its rows in
  rowid order. Timestamps (\<^verbatim>\<open>datetime.now().isoformat()\<close>) and the outcomes of
  \<^verbatim>\<open>random.choices\<close> are inputs of the operations that use them. A movie payload
  (\<^verbatim>\<open>movie_data\<close>, written by \<^verbatim>\<open>json.dumps\<close> and read back by \<^verbatim>\<open>json.loads\<close>) is
  kept as the opaque text it is stored as.
\<close>

record room =
  room_code :: string
  created_at :: string
  status :: string

record participant =
  p_user_id :: string
  p_username :: string
  p_room_code :: string
  p_joined_at :: string

record movie =
  m_id :: nat
  m_room_code :: string
  m_movie_id :: int
  m_movie_data :: string

record vote =
  v_id :: nat
  v_user_id :: string
  v_movie_id :: int
  v_room_code :: string
  v_vote :: int
  v_voted_at :: string

text \<open>
  \<^verbatim>\<open>movies_seq\<close> and \<^verbatim>\<open>votes_seq\<close> are the AUTOINCREMENT counters of the two tables with a
  generated key (SQLite's \<^verbatim>\<open>sqlite_sequence\<close>): the largest key handed out so far.

  Every method opens its own connection and closes it on its normal path only. When a
  statement raises after the connection has started writing, the connection is never
  closed and its transaction stays open: \<^verbatim>\<open>write_locked\<close> says that such a connection
  holds the write lock of the database file. Reads still work then; every write of
  another connection waits for the 10 seconds of \<^verbatim>\<open>timeout=10\<close> and raises
  \<^verbatim>\<open>sqlite3.OperationalError\<close> (database is locked).
\<close>

record database =
  rooms :: "room list"
  participants :: "participant list"
  movies :: "movie list"
  votes :: "vote list"
  movies_seq :: nat
  votes_seq :: nat
  write_locked :: bool

definition empty_db :: database where
  "empty_db = \<lparr>rooms = [], participants = [], movies = [], votes = [],
               movies_seq = 0, votes_seq = 0, write_locked = False\<rparr>"

text \<open>
  The exceptions a method can raise. A method's outcome is the value it returns or the
  exception it raises, together with the store it leaves.
\<close>

datatype db_error = IntegrityError | OverflowError | OperationalError | RecursionError

text \<open>
  An SQLite INTEGER is a signed 64-bit number: binding a Python integer outside that
  range as a statement parameter raises \<^verbatim>\<open>OverflowError\<close> before the statement runs.
\<close>

definition in_int64 :: "int \<Rightarrow> bool" where
  "in_int64 n = (- (2 ^ 63) \<le> n \<and> n < 2 ^ 63)"

text \<open>
  When the interpreter finalises a connection that was left open, its transaction is
  rolled back and the lock is released. When that happens is not decided by the program.
\<close>

definition finalize_connections :: "database \<Rightarrow> database" where
  "finalize_connections db = db\<lparr>write_locked := False\<rparr>"

subsection \<open>Random draws\<close>

text \<open>
  \<^verbatim>\<open>random.choices(population, k=k)\<close> draws \<open>k\<close> elements of the population with
  replacement. The generator is an input: \<open>rnd\<close> is the sequence of numbers it yields and
  \<open>i\<close> the position reached, each number picking one element of the population.
\<close>

definition ascii_uppercase :: string where
  "ascii_uppercase = ''ABCDEFGHIJKLMNOPQRSTUVWXYZ''"

definition ascii_lowercase :: string where
  "ascii_lowercase = ''abcdefghijklmnopqrstuvwxyz''"

definition digits :: string where
  "digits = ''0123456789''"

definition choices :: "'a list \<Rightarrow> nat \<Rightarrow> (nat \<Rightarrow> nat) \<Rightarrow> nat \<Rightarrow> 'a list" where
  "choices population k rnd i =
     map (\<lambda>j. population ! (rnd (i + j) mod length population)) [0..<k]"

subsection \<open>Rooms and participants\<close>

text \<open>\<^verbatim>\<open>SELECT room_code FROM rooms WHERE room_code = ?\<close> followed by \<^verbatim>\<open>fetchone()\<close>.\<close>

definition room_exists :: "database \<Rightarrow> string \<Rightarrow> bool" where
  "room_exists db code = (filter (\<lambda>r. room_code r = code) (rooms db) \<noteq> [])"

text \<open>
  \<^verbatim>\<open>join_room\<close>: \<^verbatim>\<open>None\<close> when the room is unknown (the connection is closed, nothing
  was written). Otherwise a user id is drawn and inserted. The INSERT needs the write
  lock first. \<^verbatim>\<open>user_id\<close> is the PRIMARY KEY of \<^verbatim>\<open>participants\<close>, and the drawn id is not
  checked: when it is already a key of the table the INSERT raises
  \<^verbatim>\<open>sqlite3.IntegrityError\<close>, nothing is committed, and the method is left without
  \<^verbatim>\<open>conn.close()\<close>, its write transaction open.
\<close>

definition join_room ::
  "database \<Rightarrow> string \<Rightarrow> string \<Rightarrow> (nat \<Rightarrow> nat) \<Rightarrow> string \<Rightarrow>
     (db_error + string option) \<times> database" where
  "join_room db code username rnd now =
     (if \<not> room_exists db code then (Inr None, db)
      else let user_id = choices (ascii_lowercase @ digits) 16 rnd 0
           in if write_locked db then (Inl OperationalError, db)
              else if user_id \<in> set (map p_user_id (participants db))
              then (Inl IntegrityError, db\<lparr>write_locked := True\<rparr>)
              else (Inr (Some user_id),
                    db\<lparr>participants := participants db @
                         [\<lparr>p_user_id = user_id, p_username = username,
                           p_room_code = code, p_joined_at = now\<rparr>]\<rparr>))"

definition get_participants :: "database \<Rightarrow> string \<Rightarrow> (string \<times> string) list" where
  "get_participants db code =
     map (\<lambda>p. (p_user_id p, p_username p))
         (filter (\<lambda>p. p_room_code p = code) (participants db))"

text \<open>
  \<^verbatim>\<open>remove_participant\<close>: the two DELETE statements, votes first, then the participant,
  then the commit. The first DELETE needs the write lock, whether or not it selects a row.
\<close>

definition remove_participant ::
  "database \<Rightarrow> string \<Rightarrow> string \<Rightarrow> (db_error + unit) \<times> database" where
  "remove_participant db user_id code =
     (if write_locked db then (Inl OperationalError, db)
      else (Inr (),
            db\<lparr>votes := filter (\<lambda>v. \<not> (v_user_id v = user_id \<and> v_room_code v = code))
                                (votes db),
               participants :=
                 filter (\<lambda>p. \<not> (p_user_id p = user_id \<and> p_room_code p = code))
                        (participants db)\<rparr>))"

subsection \<open>Candidates\<close>

text \<open>
  \<^verbatim>\<open>add_movies_to_room\<close>: one INSERT per movie of the list, then one commit; a movie is
  given as its catalogue id (\<^verbatim>\<open>movie['id']\<close>) and its serialised payload.
  \<open>insert_movies\<close> is the loop inside the transaction: it stops at the first id that is
  not an SQLite INTEGER. Then nothing is committed, and if an INSERT had run before, the
  connection is left with its write transaction open.
\<close>

fun insert_movies ::
  "database \<Rightarrow> string \<Rightarrow> (int \<times> string) list \<Rightarrow> (db_error + unit) \<times> database" where
  "insert_movies db code [] = (Inr (), db)"
| "insert_movies db code ((mid, payload) # ms) =
     (if \<not> in_int64 mid then (Inl OverflowError, db)
      else insert_movies
             (db\<lparr>movies := movies db @
                    [\<lparr>m_id = Suc (movies_seq db), m_room_code = code,
                      m_movie_id = mid, m_movie_data = payload\<rparr>],
                 movies_seq := Suc (movies_seq db)\<rparr>)
             code ms)"

definition add_movies_to_room ::
  "database \<Rightarrow> string \<Rightarrow> (int \<times> string) list \<Rightarrow> (db_error + unit) \<times> database" where
  "add_movies_to_room db code ms =
     (case ms of
        [] \<Rightarrow> (Inr (), db)
      | (mid, payload) # rest \<Rightarrow>
          if \<not> in_int64 mid then (Inl OverflowError, db)
          else if write_locked db then (Inl OperationalError, db)
          else (case insert_movies db code ms of
                  (Inr u, db') \<Rightarrow> (Inr (), db')
                | (Inl e, db') \<Rightarrow> (Inl e, db\<lparr>write_locked := True\<rparr>)))"

definition get_movies_for_room :: "database \<Rightarrow> string \<Rightarrow> string list" where
  "get_movies_for_room db code =
     map m_movie_data (filter (\<lambda>m. m_room_code m = code) (movies db))"

subsection \<open>Votes\<close>

text \<open>
  \<^verbatim>\<open>save_vote\<close>: the SELECT binds the movie id; \<^verbatim>\<open>fetchone()\<close> takes the first row of the
  (user, movie, room) triple. If there is one, UPDATE the row(s) with that id, else INSERT
  a row with the next generated id; either statement binds the vote value and then needs
  the write lock. A movie id or a vote value that is not an SQLite INTEGER raises
  \<^verbatim>\<open>OverflowError\<close> at its binding, before anything is written. The source checks neither
  the room, nor the participant, nor the movie, and the connection never enables foreign
  keys.
\<close>

definition save_vote ::
  "database \<Rightarrow> string \<Rightarrow> int \<Rightarrow> string \<Rightarrow> int \<Rightarrow> string \<Rightarrow> (db_error + unit) \<times> database" where
  "save_vote db user_id movie_id code vote_value now =
     (if \<not> in_int64 movie_id then (Inl OverflowError, db)
      else
        (case filter (\<lambda>v. v_user_id v = user_id \<and> v_movie_id v = movie_id \<and> v_room_code v = code)
                     (votes db) of
           existing # _ \<Rightarrow>
             if \<not> in_int64 vote_value then (Inl OverflowError, db)
             else if write_locked db then (Inl OperationalError, db)
             else (Inr (),
                   db\<lparr>votes := map (\<lambda>v. if v_id v = v_id existing
                                         then v\<lparr>v_vote := vote_value, v_voted_at := now\<rparr>
                                         else v)
                                   (votes db)\<rparr>)
         | [] \<Rightarrow>
             if \<not> in_int64 vote_value then (Inl OverflowError, db)
             else if write_locked db then (Inl OperationalError, db)
             else (Inr (),
                   db\<lparr>votes := votes db @
                          [\<lparr>v_id = Suc (votes_seq db), v_user_id = user_id,
                            v_movie_id = movie_id, v_room_code = code,
                            v_vote = vote_value, v_voted_at = now\<rparr>],
                       votes_seq := Suc (votes_seq db)\<rparr>)))"

subsection \<open>The matching queries\<close>

text \<open>\<^verbatim>\<open>SELECT COUNT(*) FROM participants WHERE room_code = ?\<close>\<close>

definition participant_count :: "database \<Rightarrow> string \<Rightarrow> nat" where
  "participant_count db code = length (filter (\<lambda>p. p_room_code p = code) (participants db))"

text \<open>
  The subquery of \<^verbatim>\<open>get_matched_movies\<close>:
  \<^verbatim>\<open>SELECT v.movie_id FROM votes v WHERE v.room_code = ? AND v.vote = 1
    GROUP BY v.movie_id HAVING COUNT(DISTINCT v.user_id) = ?\<close>.
  A group exists only for a movie id that has at least one selected row.
\<close>

definition yes_votes :: "database \<Rightarrow> string \<Rightarrow> vote list" where
  "yes_votes db code = filter (\<lambda>v. v_room_code v = code \<and> v_vote v = 1) (votes db)"

definition yes_voters :: "database \<Rightarrow> string \<Rightarrow> int \<Rightarrow> string list" where
  "yes_voters db code mid =
     remdups (map v_user_id (filter (\<lambda>v. v_movie_id v = mid) (yes_votes db code)))"

definition unanimous_movie_ids :: "database \<Rightarrow> string \<Rightarrow> nat \<Rightarrow> int list" where
  "unanimous_movie_ids db code n =
     filter (\<lambda>mid. length (yes_voters db code mid) = n)
            (remdups (map v_movie_id (yes_votes db code)))"

text \<open>
  \<^verbatim>\<open>get_matched_movies\<close>: the rows of \<^verbatim>\<open>movies\<close> of the room whose movie id is in the
  subquery's result, each returned as its payload.
\<close>

definition matched_rows :: "database \<Rightarrow> string \<Rightarrow> movie list" where
  "matched_rows db code =
     filter (\<lambda>m. m_room_code m = code \<and>
                 m_movie_id m \<in> set (unanimous_movie_ids db code (participant_count db code)))
            (movies db)"

definition get_matched_movies :: "database \<Rightarrow> string \<Rightarrow> string list" where
  "get_matched_movies db code = map m_movie_data (matched_rows db code)"

text \<open>
  \<^verbatim>\<open>count_matched_movies\<close>: movies LEFT JOIN votes (same movie id, same room, vote 1),
  restricted to the room, grouped by movie id, keeping the groups whose number of joined
  vote rows, \<^verbatim>\<open>COUNT(v.id)\<close>, equals the participant count; the result is the number of
  groups kept. A movie row without a joined vote still makes a group, with count 0.
\<close>

definition joined_votes :: "database \<Rightarrow> movie \<Rightarrow> vote list" where
  "joined_votes db m =
     filter (\<lambda>v. m_movie_id m = v_movie_id v \<and> m_room_code m = v_room_code v \<and> v_vote v = 1)
            (votes db)"

definition yes_count :: "database \<Rightarrow> string \<Rightarrow> int \<Rightarrow> nat" where
  "yes_count db code mid =
     sum_list (map (\<lambda>m. length (joined_votes db m))
                   (filter (\<lambda>m. m_room_code m = code \<and> m_movie_id m = mid) (movies db)))"

definition count_matched_movies :: "database \<Rightarrow> string \<Rightarrow> nat" where
  "count_matched_movies db code =
     length (filter (\<lambda>mid. yes_count db code mid = participant_count db code)
                    (remdups (map m_movie_id (filter (\<lambda>m. m_room_code m = code) (movies db)))))"

record progress =
  total_movies :: nat
  movies_with_all_votes :: nat
  participants_n :: nat

definition get_vote_progress :: "database \<Rightarrow> string \<Rightarrow> progress" where
  "get_vote_progress db code =
     \<lparr>total_movies = length (filter (\<lambda>m. m_room_code m = code) (movies db)),
      movies_with_all_votes = count_matched_movies db code,
      participants_n = participant_count db code\<rparr>"

subsection \<open>Room codes\<close>

text \<open>
  \<^verbatim>\<open>generate_room_code\<close>: draw a code; if a room has it, call \<^verbatim>\<open>generate_room_code\<close>
  again, else return it. The source recurses with no counter and no limit of its own;
  each collision adds a frame to the interpreter's stack, and the interpreter ends the
  call with \<^verbatim>\<open>RecursionError\<close> when its recursion limit is reached. \<open>frames\<close> is the
  number of nested activations of \<^verbatim>\<open>generate_room_code\<close> that the limit still allows when
  the method is called; it depends on the interpreter and on the caller's stack, not on
  the program.
\<close>

fun generate_room_code ::
  "database \<Rightarrow> (nat \<Rightarrow> nat) \<Rightarrow> nat \<Rightarrow> nat \<Rightarrow> db_error + string" where
  "generate_room_code db rnd i 0 = Inl RecursionError"
| "generate_room_code db rnd i (Suc frames) =
     (let code = choices (ascii_uppercase @ digits) 6 rnd i
      in if room_exists db code then generate_room_code db rnd (i + 6) frames else Inr code)"

text \<open>\<^verbatim>\<open>create_room\<close>: generate the code, INSERT the room, commit.\<close>

definition create_room ::
  "database \<Rightarrow> (nat \<Rightarrow> nat) \<Rightarrow> string \<Rightarrow> nat \<Rightarrow> (db_error + string) \<times> database" where
  "create_room db rnd now frames =
     (case generate_room_code db rnd 0 frames of
        Inl e \<Rightarrow> (Inl e, db)
      | Inr code \<Rightarrow>
          if write_locked db then (Inl OperationalError, db)
          else (Inr code,
                db\<lparr>rooms := rooms db @
                       [\<lparr>room_code = code, created_at = now, status = ''active''\<rparr>]\<rparr>))"

section \<open>The connection manager and the endpoints (backend/main.py)\<close>

text \<open>
  A WebSocket is known by a number. Whether \<^verbatim>\<open>send_json\<close> on a socket raises is decided
  outside the program; \<open>broken\<close> says for which sockets it does. What a socket was sent
  is recorded as the list of deliveries, and what the \<^verbatim>\<open>except\<close> branch prints as the
  list of caught errors.
\<close>

type_synonym websocket = nat

datatype ws_error = SendFailed | ValueError

definition send_json :: "(websocket \<Rightarrow> bool) \<Rightarrow> websocket \<Rightarrow> 'm \<Rightarrow> ws_error + (websocket \<times> 'm)" where
  "send_json broken ws msg = (if broken ws then Inl SendFailed else Inr (ws, msg))"

definition connect :: "(string \<rightharpoonup> websocket list) \<Rightarrow> websocket \<Rightarrow> string \<Rightarrow> (string \<rightharpoonup> websocket list)" where
  "connect conns ws code =
     (let conns' = (if code \<notin> dom conns then conns(code \<mapsto> []) else conns)
      in conns'(code \<mapsto> (case conns' code of None \<Rightarrow> [] | Some cs \<Rightarrow> cs) @ [ws]))"

text \<open>\<^verbatim>\<open>list.remove\<close> raises \<^verbatim>\<open>ValueError\<close> when the element is not in the list.\<close>

definition disconnect ::
  "(string \<rightharpoonup> websocket list) \<Rightarrow> websocket \<Rightarrow> string \<Rightarrow> ws_error + (string \<rightharpoonup> websocket list)" where
  "disconnect conns ws code =
     (case conns code of
        None \<Rightarrow> Inr conns
      | Some cs \<Rightarrow>
          if ws \<notin> set cs then Inl ValueError
          else if remove1 ws cs = [] then Inr (conns(code := None))
          else Inr (conns(code \<mapsto> remove1 ws cs)))"

text \<open>
  \<^verbatim>\<open>broadcast_to_room\<close>: the \<^verbatim>\<open>for\<close> loop over the room's list, with the \<^verbatim>\<open>try\<close> around
  each send. The result is the registry afterwards, the deliveries made and the errors
  caught and printed, both in loop order.
\<close>

fun broadcast_loop ::
  "(websocket \<Rightarrow> bool) \<Rightarrow> websocket list \<Rightarrow> 'm \<Rightarrow> (websocket \<times> 'm) list \<times> (websocket \<times> ws_error) list" where
  "broadcast_loop broken [] msg = ([], [])"
| "broadcast_loop broken (connection # rest) msg =
     (case send_json broken connection msg of
        Inr sent \<Rightarrow> (sent # fst (broadcast_loop broken rest msg),
                     snd (broadcast_loop broken rest msg))
      | Inl e \<Rightarrow> (fst (broadcast_loop broken rest msg),
                  (connection, e) # snd (broadcast_loop broken rest msg)))"

definition broadcast_to_room ::
  "(websocket \<Rightarrow> bool) \<Rightarrow> (string \<rightharpoonup> websocket list) \<Rightarrow> string \<Rightarrow> 'm \<Rightarrow>
     (string \<rightharpoonup> websocket list) \<times> (websocket \<times> 'm) list \<times> (websocket \<times> ws_error) list" where
  "broadcast_to_room broken conns code msg =
     (case conns code of
        None \<Rightarrow> (conns, [], [])
      | Some cs \<Rightarrow> (conns, broadcast_loop broken cs msg))"

text \<open>
  The request models carry typed fields only: \<^verbatim>\<open>username: str\<close> and \<^verbatim>\<open>vote: int\<close> have no
  further constraint in the source, so every string and every integer is a well-typed
  request.
\<close>

record JoinRoomRequest =
  jr_room_code :: string
  jr_username :: string

record VoteRequest =
  vr_user_id :: string
  vr_movie_id :: int
  vr_room_code :: string
  vr_vote :: int

datatype message =
  UserJoined string "(string \<times> string) list"
| VoteUpdate int progress
| UserLeft string "(string \<times> string) list"

datatype 'a response = Ok 'a | HTTPException nat

record server =
  srv_db :: database
  srv_manager :: "string \<rightharpoonup> websocket list"
  srv_outbox :: "(websocket \<times> message) list"

text \<open>
  The \<^verbatim>\<open>/api/rooms/join\<close> handler: 404 when \<^verbatim>\<open>not user_id\<close> holds of what
  \<^verbatim>\<open>db.join_room\<close> returns (\<^verbatim>\<open>None\<close> or the empty string), 500 for any other exception,
  else the broadcast of \<^verbatim>\<open>user_joined\<close> and the new user id.
\<close>

definition join_room_endpoint ::
  "(websocket \<Rightarrow> bool) \<Rightarrow> server \<Rightarrow> JoinRoomRequest \<Rightarrow> (nat \<Rightarrow> nat) \<Rightarrow> string \<Rightarrow>
     string response \<times> server" where
  "join_room_endpoint broken s request rnd now =
     (case join_room (srv_db s) (jr_room_code request) (jr_username request) rnd now of
        (Inl e, db') \<Rightarrow> (HTTPException 500, s\<lparr>srv_db := db'\<rparr>)
      | (Inr None, db') \<Rightarrow> (HTTPException 404, s\<lparr>srv_db := db'\<rparr>)
      | (Inr (Some user_id), db') \<Rightarrow>
          if user_id = [] then (HTTPException 404, s\<lparr>srv_db := db'\<rparr>)
          else
            (let all_participants = get_participants db' (jr_room_code request);
                 (conns, sent, printed) =
                   broadcast_to_room broken (srv_manager s) (jr_room_code request)
                     (UserJoined (jr_username request) all_participants)
             in (Ok user_id,
                 s\<lparr>srv_db := db', srv_manager := conns, srv_outbox := srv_outbox s @ sent\<rparr>)))"

text \<open>
  The \<^verbatim>\<open>/api/vote\<close> handler: save the vote, compute the progress, broadcast
  \<^verbatim>\<open>vote_update\<close>, answer with the progress; 500 when \<^verbatim>\<open>save_vote\<close> raises.
\<close>

definition vote_endpoint ::
  "(websocket \<Rightarrow> bool) \<Rightarrow> server \<Rightarrow> VoteRequest \<Rightarrow> string \<Rightarrow> progress response \<times> server" where
  "vote_endpoint broken s request now =
     (case save_vote (srv_db s) (vr_user_id request) (vr_movie_id request)
             (vr_room_code request) (vr_vote request) now of
        (Inl e, db') \<Rightarrow> (HTTPException 500, s\<lparr>srv_db := db'\<rparr>)
      | (Inr u, db') \<Rightarrow>
          (let progress = get_vote_progress db' (vr_room_code request);
               (conns, sent, printed) =
                 broadcast_to_room broken (srv_manager s) (vr_room_code request)
                   (VoteUpdate (vr_movie_id request) progress)
           in (Ok progress,
               s\<lparr>srv_db := db', srv_manager := conns, srv_outbox := srv_outbox s @ sent\<rparr>)))"

section \<open>Well-formed stores and the wording of the specification\<close>

text \<open>
  What the table declarations and \<^verbatim>\<open>save_vote\<close> maintain: \<^verbatim>\<open>participants.user_id\<close> is a
  primary key; \<^verbatim>\<open>votes.id\<close> is a generated primary key, never above the counter; and there
  is at most one vote row per (user, movie, room).
\<close>

definition vote_key :: "vote \<Rightarrow> string \<times> int \<times> string" where
  "vote_key v = (v_user_id v, v_movie_id v, v_room_code v)"

definition participants_pk :: "database \<Rightarrow> bool" where
  "participants_pk db = distinct (map p_user_id (participants db))"

definition votes_ok :: "database \<Rightarrow> bool" where
  "votes_ok db =
     (distinct (map v_id (votes db)) \<and> distinct (map vote_key (votes db)) \<and>
      list_all (\<lambda>v. v_id v \<le> votes_seq db) (votes db))"

text \<open>Every approval row of the room was cast by a current participant of the room.\<close>

definition approvals_by_participants :: "database \<Rightarrow> string \<Rightarrow> bool" where
  "approvals_by_participants db code =
     list_all (\<lambda>v. v_user_id v \<in> set (map fst (get_participants db code)))
              (yes_votes db code)"

text \<open>
  The specification's matched candidates, in its own words: a candidate of the room is
  matched iff the number of distinct participants of the room who hold an approval vote
  on it equals the participant count of the room.
\<close>

definition approving_participants :: "database \<Rightarrow> string \<Rightarrow> int \<Rightarrow> string list" where
  "approving_participants db code mid =
     remdups (filter (\<lambda>u. u \<in> set (map v_user_id
                                     (filter (\<lambda>v. v_movie_id v = mid) (yes_votes db code))))
                     (map fst (get_participants db code)))"

definition spec_matchedCandidates :: "database \<Rightarrow> string \<Rightarrow> string list" where
  "spec_matchedCandidates db code =
     map m_movie_data
       (filter (\<lambda>m. m_room_code m = code \<and>
                    length (approving_participants db code (m_movie_id m)) =
                      participant_count db code)
               (movies db))"

text \<open>The identifier that \<^verbatim>\<open>join_room\<close> draws, and the sockets registered for a room.\<close>

definition drawn_user_id :: "(nat \<Rightarrow> nat) \<Rightarrow> string" where
  "drawn_user_id rnd = choices (ascii_lowercase @ digits) 16 rnd 0"

definition room_connections :: "(string \<rightharpoonup> websocket list) \<Rightarrow> string \<Rightarrow> websocket list" where
  "room_connections conns code = (case conns code of None \<Rightarrow> [] | Some cs \<Rightarrow> cs)"



section \<open>Example runs\<close>

text \<open>A generator that yields the listed numbers and 0 ever after.\<close>

definition rnd_of :: "nat list \<Rightarrow> nat \<Rightarrow> nat" where
  "rnd_of xs i = (if i < length xs then xs ! i else 0)"

definition rnd_AB12CD :: "nat \<Rightarrow> nat" where
  "rnd_AB12CD = rnd_of [0, 1, 27, 28, 2, 3]"

definition rnd_p :: "nat \<Rightarrow> nat" where
  "rnd_p = rnd_of [15]"

definition rnd_q :: "nat \<Rightarrow> nat" where
  "rnd_q = rnd_of [16]"

text \<open>
  A freshly created room with two candidates and nobody in it: \<^verbatim>\<open>create_room\<close> on the
  empty store, then \<^verbatim>\<open>add_movies_to_room\<close>.
\<close>

definition lobby :: database where
  "lobby =
     snd (add_movies_to_room (snd (create_room empty_db rnd_AB12CD ''t0'' 900))
            ''AB12CD'' [(101, ''{101}''), (102, ''{102}'')])"

text \<open>The same room after a vote request of a user id that never joined.\<close>

definition lobby_stale :: database where
  "lobby_stale = snd (save_vote lobby ''ghost'' 101 ''AB12CD'' 1 ''t1'')"

text \<open>The room after ann joined, and then after a vote request of a user id that never joined.\<close>

definition lobby_ann :: database where
  "lobby_ann = snd (join_room lobby ''AB12CD'' ''ann'' rnd_p ''t1'')"

definition lobby_ann_ghost :: database where
  "lobby_ann_ghost = snd (save_vote lobby_ann ''ghost'' 101 ''AB12CD'' 1 ''t2'')"

text \<open>
  The room after ann and bob joined, both approved candidate 101, and ann alone approved
  candidate 102.
\<close>

definition scenario :: database where
  "scenario =
     snd (save_vote
       (snd (save_vote
          (snd (save_vote (snd (join_room lobby_ann ''AB12CD'' ''bob'' rnd_q ''t2''))
             ''paaaaaaaaaaaaaaa'' 101 ''AB12CD'' 1 ''t3''))
          ''qaaaaaaaaaaaaaaa'' 101 ''AB12CD'' 1 ''t4''))
       ''paaaaaaaaaaaaaaa'' 102 ''AB12CD'' 1 ''t5'')"

text \<open>
  The room with ann in it after a second join for which the generator drew ann's id
  again: the join raised and left its connection open.
\<close>

definition lobby_ann_locked :: database where
  "lobby_ann_locked = snd (join_room lobby_ann ''AB12CD'' ''bob'' rnd_p ''t2'')"

text \<open>
  A store whose only room has the code that the generator \<open>rnd_of []\<close> draws every time,
  and a generator whose first draw is that code and whose second is another.
\<close>

definition stuck_db :: database where
  "stuck_db = snd (create_room empty_db (rnd_of []) ''t0'' 900)"

definition rnd_second :: "nat \<Rightarrow> nat" where
  "rnd_second = rnd_of [0, 0, 0, 0, 0, 0, 0, 1, 27, 28, 2, 3]"

text \<open>
  Three sockets connected to the room, the second of which has gone stale, and a server
  holding a given store and these connections.
\<close>

definition registry3 :: "string \<rightharpoonup> websocket list" where
  "registry3 = connect (connect (connect Map.empty 1 ''AB12CD'') 2 ''AB12CD'') 3 ''AB12CD''"

definition stale_2 :: "websocket \<Rightarrow> bool" where
  "stale_2 ws = (ws = 2)"

definition server_of :: "database \<Rightarrow> server" where
  "server_of d = \<lparr>srv_db = d, srv_manager = registry3, srv_outbox = []\<rparr>"

section \<open>Evaluating the example runs\<close>

lemma generate_room_code_unfold:
  "0 < frames \<Longrightarrow>
   generate_room_code db rnd i frames =
     (let code = choices (ascii_uppercase @ digits) 6 rnd i
      in if room_exists db code then generate_room_code db rnd (i + 6) (frames - 1)
         else Inr code)"
  by (cases frames) (simp_all add: Let_def)

lemma in_int64_small: "in_int64 0" "in_int64 1" "in_int64 101" "in_int64 102" "in_int64 7"
  by (simp_all add: in_int64_def)

lemma choices_AB12CD: "choices (ascii_uppercase @ digits) 6 rnd_AB12CD 0 = ''AB12CD''"
  by (simp add: choices_def rnd_AB12CD_def rnd_of_def ascii_uppercase_def digits_def upt_rec)

lemma generate_AB12CD: "generate_room_code empty_db rnd_AB12CD 0 900 = Inr ''AB12CD''"
  by (subst generate_room_code_unfold) (simp_all add: choices_AB12CD room_exists_def empty_db_def)

lemma lobby_eq:
  "lobby =
     \<lparr>rooms = [\<lparr>room_code = ''AB12CD'', created_at = ''t0'', status = ''active''\<rparr>],
      participants = [],
      movies = [\<lparr>m_id = 1, m_room_code = ''AB12CD'', m_movie_id = 101, m_movie_data = ''{101}''\<rparr>,
                \<lparr>m_id = 2, m_room_code = ''AB12CD'', m_movie_id = 102, m_movie_data = ''{102}''\<rparr>],
      votes = [], movies_seq = 2, votes_seq = 0, write_locked = False\<rparr>"
  unfolding lobby_def create_room_def generate_AB12CD
  by (simp add: empty_db_def add_movies_to_room_def in_int64_small)

lemma lobby_stale_eq:
  "lobby_stale =
     \<lparr>rooms = [\<lparr>room_code = ''AB12CD'', created_at = ''t0'', status = ''active''\<rparr>],
      participants = [],
      movies = [\<lparr>m_id = 1, m_room_code = ''AB12CD'', m_movie_id = 101, m_movie_data = ''{101}''\<rparr>,
                \<lparr>m_id = 2, m_room_code = ''AB12CD'', m_movie_id = 102, m_movie_data = ''{102}''\<rparr>],
      votes = [\<lparr>v_id = 1, v_user_id = ''ghost'', v_movie_id = 101, v_room_code = ''AB12CD'',
                v_vote = 1, v_voted_at = ''t1''\<rparr>],
      movies_seq = 2, votes_seq = 1, write_locked = False\<rparr>"
  by (simp add: lobby_stale_def lobby_eq save_vote_def in_int64_small)

lemma choices_p: "choices (ascii_lowercase @ digits) 16 rnd_p 0 = ''paaaaaaaaaaaaaaa''"
  by (simp add: choices_def rnd_p_def rnd_of_def ascii_lowercase_def digits_def upt_rec)

lemma choices_q: "choices (ascii_lowercase @ digits) 16 rnd_q 0 = ''qaaaaaaaaaaaaaaa''"
  by (simp add: choices_def rnd_q_def rnd_of_def ascii_lowercase_def digits_def upt_rec)

lemma lobby_ann_eq:
  "lobby_ann =
     \<lparr>rooms = [\<lparr>room_code = ''AB12CD'', created_at = ''t0'', status = ''active''\<rparr>],
      participants = [\<lparr>p_user_id = ''paaaaaaaaaaaaaaa'', p_username = ''ann'',
                       p_room_code = ''AB12CD'', p_joined_at = ''t1''\<rparr>],
      movies = [\<lparr>m_id = 1, m_room_code = ''AB12CD'', m_movie_id = 101, m_movie_data = ''{101}''\<rparr>,
                \<lparr>m_id = 2, m_room_code = ''AB12CD'', m_movie_id = 102, m_movie_data = ''{102}''\<rparr>],
      votes = [], movies_seq = 2, votes_seq = 0, write_locked = False\<rparr>"
  unfolding lobby_ann_def join_room_def choices_p
  by (simp add: lobby_eq room_exists_def Let_def)

lemma lobby_ann_ghost_eq:
  "lobby_ann_ghost =
     \<lparr>rooms = [\<lparr>room_code = ''AB12CD'', created_at = ''t0'', status = ''active''\<rparr>],
      participants = [\<lparr>p_user_id = ''paaaaaaaaaaaaaaa'', p_username = ''ann'',
                       p_room_code = ''AB12CD'', p_joined_at = ''t1''\<rparr>],
      movies = [\<lparr>m_id = 1, m_room_code = ''AB12CD'', m_movie_id = 101, m_movie_data = ''{101}''\<rparr>,
                \<lparr>m_id = 2, m_room_code = ''AB12CD'', m_movie_id = 102, m_movie_data = ''{102}''\<rparr>],
      votes = [\<lparr>v_id = 1, v_user_id = ''ghost'', v_movie_id = 101, v_room_code = ''AB12CD'',
                v_vote = 1, v_voted_at = ''t2''\<rparr>],
      movies_seq = 2, votes_seq = 1, write_locked = False\<rparr>"
  by (simp add: lobby_ann_ghost_def lobby_ann_eq save_vote_def in_int64_small)

lemma scenario_eq:
  "scenario =
     \<lparr>rooms = [\<lparr>room_code = ''AB12CD'', created_at = ''t0'', status = ''active''\<rparr>],
      participants = [\<lparr>p_user_id = ''paaaaaaaaaaaaaaa'', p_username = ''ann'',
                       p_room_code = ''AB12CD'', p_joined_at = ''t1''\<rparr>,
                      \<lparr>p_user_id = ''qaaaaaaaaaaaaaaa'', p_username = ''bob'',
                       p_room_code = ''AB12CD'', p_joined_at = ''t2''\<rparr>],
      movies = [\<lparr>m_id = 1, m_room_code = ''AB12CD'', m_movie_id = 101, m_movie_data = ''{101}''\<rparr>,
                \<lparr>m_id = 2, m_room_code = ''AB12CD'', m_movie_id = 102, m_movie_data = ''{102}''\<rparr>],
      votes = [\<lparr>v_id = 1, v_user_id = ''paaaaaaaaaaaaaaa'', v_movie_id = 101,
                v_room_code = ''AB12CD'', v_vote = 1, v_voted_at = ''t3''\<rparr>,
               \<lparr>v_id = 2, v_user_id = ''qaaaaaaaaaaaaaaa'', v_movie_id = 101,
                v_room_code = ''AB12CD'', v_vote = 1, v_voted_at = ''t4''\<rparr>,
               \<lparr>v_id = 3, v_user_id = ''paaaaaaaaaaaaaaa'', v_movie_id = 102,
                v_room_code = ''AB12CD'', v_vote = 1, v_voted_at = ''t5''\<rparr>],
      movies_seq = 2, votes_seq = 3, write_locked = False\<rparr>"
  unfolding scenario_def join_room_def choices_q
  by (simp add: lobby_ann_eq room_exists_def save_vote_def Let_def in_int64_small)

lemma lobby_ann_locked_eq: "lobby_ann_locked = lobby_ann\<lparr>write_locked := True\<rparr>"
  unfolding lobby_ann_locked_def join_room_def choices_p
  by (simp add: lobby_ann_eq room_exists_def Let_def)

lemmas spec_defs = spec_matchedCandidates_def approving_participants_def get_participants_def

lemmas matching_defs =
  get_matched_movies_def matched_rows_def unanimous_movie_ids_def yes_voters_def yes_votes_def
  count_matched_movies_def yes_count_def joined_votes_def participant_count_def
  get_vote_progress_def

section \<open>The matched count of the progress report\<close>

text \<open>
  C2. The matched count of \<^verbatim>\<open>get_vote_progress\<close> should be the number of candidates that
  \<^verbatim>\<open>get_matched_movies\<close> returns. In the freshly created room, with two candidates and no
  participant, \<^verbatim>\<open>get_matched_movies\<close> returns no candidate while the progress reports two
  matched movies: the LEFT JOIN of \<^verbatim>\<open>count_matched_movies\<close> keeps a group with zero joined
  votes for every candidate, and zero is the participant count.
\<close>

theorem progress_count_differs_in_lobby:
  "get_matched_movies lobby ''AB12CD'' = []
   \<and> get_vote_progress lobby ''AB12CD'' =
       \<lparr>total_movies = 2, movies_with_all_votes = 2, participants_n = 0\<rparr>"
  by (simp add: lobby_eq matching_defs)

text \<open>
  C3. With no participant in the room, \<^verbatim>\<open>get_matched_movies\<close> is empty whatever vote rows
  there are (lemma \<open>no_participants_no_match\<close> below), but the matched count is not 0: in
  the room with one stale approval on candidate 101, candidate 102 has no approval row and
  is counted.
\<close>

theorem stale_room_count_not_zero:
  "participant_count lobby_stale ''AB12CD'' = 0
   \<and> get_matched_movies lobby_stale ''AB12CD'' = []
   \<and> count_matched_movies lobby_stale ''AB12CD'' = 1
   \<and> movies_with_all_votes (get_vote_progress lobby_stale ''AB12CD'') = 1"
  by (simp add: lobby_stale_eq matching_defs)

lemma unanimous_ids_nonempty:
  "mid \<in> set (unanimous_movie_ids db code n) \<Longrightarrow> 0 < n"
proof -
  assume a: "mid \<in> set (unanimous_movie_ids db code n)"
  then have "mid \<in> v_movie_id ` set (yes_votes db code)"
    and n: "length (yes_voters db code mid) = n"
    by (auto simp: unanimous_movie_ids_def)
  then obtain v where "v \<in> set (yes_votes db code)" "v_movie_id v = mid" by auto
  then have "v_user_id v \<in> set (yes_voters db code mid)"
    by (auto simp: yes_voters_def)
  then have "yes_voters db code mid \<noteq> []" by auto
  with n show "0 < n" by auto
qed

lemma no_participants_no_match:
  "participant_count db code = 0 \<Longrightarrow> get_matched_movies db code = []"
  using unanimous_ids_nonempty [of _ db code 0]
  by (auto simp: get_matched_movies_def matched_rows_def filter_empty_conv)

section \<open>Matched candidates\<close>

lemma room_ids_distinct:
  "participants_pk db \<Longrightarrow> distinct (map fst (get_participants db code))"
  by (simp add: participants_pk_def get_participants_def o_def distinct_map_filter)

lemma room_ids_length:
  "length (map fst (get_participants db code)) = participant_count db code"
  by (simp add: get_participants_def participant_count_def)

lemma yes_voters_participants:
  "approvals_by_participants db code \<Longrightarrow>
   set (yes_voters db code mid) \<subseteq> set (map fst (get_participants db code))"
  by (auto simp: approvals_by_participants_def yes_voters_def list_all_iff)

lemma approving_participants_length:
  assumes "approvals_by_participants db code"
  shows "length (approving_participants db code mid) = length (yes_voters db code mid)"
proof -
  have s: "set (approving_participants db code mid) = set (yes_voters db code mid)"
    using yes_voters_participants [OF assms, of mid]
    by (auto simp: approving_participants_def yes_voters_def)
  have "distinct (approving_participants db code mid)" "distinct (yes_voters db code mid)"
    by (simp_all add: approving_participants_def yes_voters_def)
  then show ?thesis using s by (metis distinct_card)
qed

lemma unanimous_ids_iff:
  assumes "0 < n"
  shows "mid \<in> set (unanimous_movie_ids db code n) \<longleftrightarrow> length (yes_voters db code mid) = n"
proof
  assume "mid \<in> set (unanimous_movie_ids db code n)"
  then show "length (yes_voters db code mid) = n" by (simp add: unanimous_movie_ids_def)
next
  assume l: "length (yes_voters db code mid) = n"
  with assms have "yes_voters db code mid \<noteq> []" by auto
  then have "mid \<in> v_movie_id ` set (yes_votes db code)"
    by (auto simp: yes_voters_def filter_empty_conv)
  with l show "mid \<in> set (unanimous_movie_ids db code n)" by (simp add: unanimous_movie_ids_def)
qed

lemma all_approve_iff:
  assumes "participants_pk db" and "approvals_by_participants db code"
  shows "length (yes_voters db code mid) = participant_count db code \<longleftrightarrow>
         set (yes_voters db code mid) = set (map fst (get_participants db code))"
proof -
  let ?Y = "yes_voters db code mid" and ?P = "map fst (get_participants db code)"
  have dy: "distinct ?Y" by (simp add: yes_voters_def)
  have dp: "distinct ?P" using assms(1) by (rule room_ids_distinct)
  have sub: "set ?Y \<subseteq> set ?P" using assms(2) by (rule yes_voters_participants)
  have ly: "length ?Y = card (set ?Y)" using dy by (simp add: distinct_card)
  have lp: "participant_count db code = card (set ?P)"
    using distinct_card [OF dp] room_ids_length [of db code] by (simp only:)
  show ?thesis
  proof
    assume "length ?Y = participant_count db code"
    then have "card (set ?Y) = card (set ?P)" using ly lp by simp
    with sub show "set ?Y = set ?P" by (simp add: card_subset_eq)
  next
    assume "set ?Y = set ?P"
    then show "length ?Y = participant_count db code" using ly lp by simp
  qed
qed

text \<open>
  C1, as stated, fails in two ways. In the empty room no candidate is returned, although
  for each candidate the number of approving participants, 0, equals the participant
  count, 0. And an approval row of a user id that is not a participant of the room is
  counted among the distinct voters: with ann alone in the room and one such row on
  candidate 101, the candidate is returned although no participant approved it.
\<close>

theorem get_matched_movies_not_spec_counterexample:
  "get_matched_movies lobby ''AB12CD'' = []
   \<and> spec_matchedCandidates lobby ''AB12CD'' = [''{101}'', ''{102}'']
   \<and> get_matched_movies lobby_ann_ghost ''AB12CD'' = [''{101}'']
   \<and> spec_matchedCandidates lobby_ann_ghost ''AB12CD'' = []"
  by (simp add: lobby_eq lobby_ann_ghost_eq matching_defs spec_defs)

text \<open>
  C1, amended. In a room with at least one participant in which every approval row was
  cast by a current participant of the room (and with \<^verbatim>\<open>user_id\<close> a key of the participants
  table, as it is declared), \<^verbatim>\<open>get_matched_movies\<close> returns exactly the candidates of the
  room for which the number of distinct approving participants equals the participant
  count. A candidate row is then returned iff the approving voters are exactly the
  participants of the room: it is returned when each participant holds an approval, and
  not returned as soon as the approval of one participant is missing.
\<close>

theorem get_matched_movies_exact:
  assumes "participants_pk db" and "approvals_by_participants db code"
    and "0 < participant_count db code"
  shows "get_matched_movies db code = spec_matchedCandidates db code
         \<and> (m \<in> set (matched_rows db code) \<longleftrightarrow>
              m \<in> set (movies db) \<and> m_room_code m = code \<and>
              set (yes_voters db code (m_movie_id m)) = set (map fst (get_participants db code)))"
proof -
  have u: "\<And>mid. mid \<in> set (unanimous_movie_ids db code (participant_count db code)) \<longleftrightarrow>
             length (yes_voters db code mid) = participant_count db code"
    using assms(3) by (rule unanimous_ids_iff)
  have a: "get_matched_movies db code = spec_matchedCandidates db code"
    by (simp add: get_matched_movies_def matched_rows_def spec_matchedCandidates_def u
        approving_participants_length [OF assms(2)])
  have b: "m \<in> set (matched_rows db code) \<longleftrightarrow>
              m \<in> set (movies db) \<and> m_room_code m = code \<and>
              set (yes_voters db code (m_movie_id m)) = set (map fst (get_participants db code))"
    by (simp add: matched_rows_def u all_approve_iff [OF assms(1,2)])
  from a b show ?thesis by blast
qed


theorem get_matched_movies_exact_witness:
  "participants_pk scenario \<and> approvals_by_participants scenario ''AB12CD''
   \<and> 0 < participant_count scenario ''AB12CD''
   \<and> get_matched_movies scenario ''AB12CD'' = spec_matchedCandidates scenario ''AB12CD''
   \<and> get_matched_movies scenario ''AB12CD'' = [''{101}'']"
proof -
  have h1: "participants_pk scenario"
    by (simp add: scenario_eq participants_pk_def)
  have h2: "approvals_by_participants scenario ''AB12CD''"
    by (simp add: scenario_eq approvals_by_participants_def yes_votes_def get_participants_def)
  have h3: "0 < participant_count scenario ''AB12CD''"
    by (simp add: scenario_eq participant_count_def)
  have e: "get_matched_movies scenario ''AB12CD'' = [''{101}'']"
    by (simp add: scenario_eq matching_defs)
  show ?thesis
    using h1 h2 h3 e get_matched_movies_exact [OF h1 h2 h3] by blast
qed

text \<open>
  The scenario of the specification: two candidates, two participants, both approve 101
  and one approves 102. When bob leaves, 102 becomes matched as well.
\<close>

lemma scenario_progress:
  "get_vote_progress scenario ''AB12CD'' =
     \<lparr>total_movies = 2, movies_with_all_votes = 1, participants_n = 2\<rparr>"
  by (simp add: scenario_eq matching_defs)

lemma scenario_after_leave:
  "get_matched_movies (snd (remove_participant scenario ''qaaaaaaaaaaaaaaa'' ''AB12CD''))
       ''AB12CD''
     = [''{101}'', ''{102}'']"
  by (simp add: scenario_eq matching_defs remove_participant_def)

section \<open>Agreement of the two matching queries\<close>

lemma filter_key_unique:
  assumes "distinct (map f xs)" and "x \<in> set xs"
  shows "filter (\<lambda>y. f y = f x) xs = [x]"
  using assms
proof (induction xs)
  case Nil
  then show ?case by simp
next
  case (Cons a xs)
  show ?case
  proof (cases "a = x")
    case True
    have "f x \<notin> f ` set xs"
      using Cons.prems(1) True by simp
    then have "\<And>y. y \<in> set xs \<Longrightarrow> f y \<noteq> f x"
      by (metis imageI)
    then have "filter (\<lambda>y. f y = f x) xs = []"
      by (simp add: filter_empty_conv)
    with True show ?thesis by simp
  next
    case False
    with Cons.prems have "x \<in> set xs" "f a \<noteq> f x" by auto
    with Cons show ?thesis by simp
  qed
qed

lemma joined_votes_yes_voters:
  assumes "distinct (map vote_key (votes db))"
  shows "length (yes_voters db (m_room_code m) (m_movie_id m)) = length (joined_votes db m)"
proof -
  let ?J = "joined_votes db m"
  have f: "filter (\<lambda>v. v_movie_id v = m_movie_id m) (yes_votes db (m_room_code m)) = ?J"
    unfolding yes_votes_def joined_votes_def filter_filter by (rule filter_cong) auto
  have d: "distinct (map vote_key ?J)"
    unfolding joined_votes_def using assms by (rule distinct_map_filter)
  have k: "\<And>v. v \<in> set ?J \<Longrightarrow> vote_key v = (v_user_id v, m_movie_id m, m_room_code m)"
    by (auto simp: joined_votes_def vote_key_def)
  have "inj_on v_user_id (set ?J)"
  proof (rule inj_onI)
    fix v w assume vw: "v \<in> set ?J" "w \<in> set ?J" "v_user_id v = v_user_id w"
    then have "vote_key v = vote_key w" using k by simp
    with d vw(1,2) show "v = w" by (auto simp: distinct_map inj_on_def)
  qed
  with d have "distinct (map v_user_id ?J)" by (simp add: distinct_map)
  then have "length (remdups (map v_user_id ?J)) = length ?J"
    by (simp add: distinct_remdups_id)
  then show ?thesis by (simp add: yes_voters_def f)
qed

text \<open>
  Where the two queries do agree: in a room with at least one participant, with at most
  one vote row per (user, movie, room) and no candidate listed twice in the room, the
  count of \<^verbatim>\<open>count_matched_movies\<close> is the number of rows of \<^verbatim>\<open>get_matched_movies\<close>.
\<close>

lemma count_matched_movies_agrees:
  assumes "0 < participant_count db code"
    and "distinct (map vote_key (votes db))"
    and "distinct (map m_movie_id (filter (\<lambda>m. m_room_code m = code) (movies db)))"
  shows "count_matched_movies db code = length (get_matched_movies db code)"
proof -
  let ?R = "filter (\<lambda>m. m_room_code m = code) (movies db)"
  let ?N = "participant_count db code"
  have yc: "yes_count db code (m_movie_id m) = length (yes_voters db code (m_movie_id m))"
    if m: "m \<in> set ?R" for m
  proof -
    have "filter (\<lambda>m'. m_room_code m' = code \<and> m_movie_id m' = m_movie_id m) (movies db)
          = filter (\<lambda>m'. m_movie_id m' = m_movie_id m) ?R"
      unfolding filter_filter by (rule filter_cong) auto
    also have "\<dots> = [m]" using assms(3) m by (rule filter_key_unique)
    finally have "yes_count db code (m_movie_id m) = length (joined_votes db m)"
      by (simp add: yes_count_def)
    moreover have "m_room_code m = code" using m by simp
    ultimately show ?thesis using joined_votes_yes_voters [OF assms(2), of m] by simp
  qed
  have "count_matched_movies db code =
          length (filter (\<lambda>mid. yes_count db code mid = ?N) (map m_movie_id ?R))"
    using assms(3) by (simp add: count_matched_movies_def distinct_remdups_id)
  also have "\<dots> = length (filter (\<lambda>m. yes_count db code (m_movie_id m) = ?N) ?R)"
    by (simp add: filter_map o_def)
  also have "\<dots> = length (filter (\<lambda>m. length (yes_voters db code (m_movie_id m)) = ?N) ?R)"
  proof -
    have "filter (\<lambda>m. yes_count db code (m_movie_id m) = ?N) ?R
          = filter (\<lambda>m. length (yes_voters db code (m_movie_id m)) = ?N) ?R"
      by (rule filter_cong) (simp_all only: yc)
    then show ?thesis by (simp only:)
  qed
  also have "\<dots> = length (matched_rows db code)"
  proof -
    have "matched_rows db code
          = filter (\<lambda>m. length (yes_voters db code (m_movie_id m)) = ?N) ?R"
      unfolding matched_rows_def filter_filter unanimous_ids_iff [OF assms(1)]
      by (rule filter_cong) auto
    then show ?thesis by (simp only:)
  qed
  also have "\<dots> = length (get_matched_movies db code)"
    by (simp add: get_matched_movies_def)
  finally show ?thesis .
qed

section \<open>Broadcasting\<close>

lemma registry3_eq: "registry3 = [''AB12CD'' \<mapsto> [1, 2, 3]]"
  by (simp add: registry3_def connect_def)

lemma broadcast_loop_sent:
  "fst (broadcast_loop broken cs msg) = map (\<lambda>ws. (ws, msg)) (filter (\<lambda>ws. \<not> broken ws) cs)"
  by (induction cs) (simp_all add: send_json_def)

lemma broadcast_loop_caught:
  "snd (broadcast_loop broken cs msg) = map (\<lambda>ws. (ws, SendFailed)) (filter broken cs)"
  by (induction cs) (simp_all add: send_json_def)

text \<open>
  C8, as stated, fails in its last part: a socket whose send fails stays in the registry.
  With sockets 1, 2, 3 in the room and socket 2 stale, the broadcast reaches 1 and 3,
  catches the failure of 2, and returns the registry as it was, socket 2 included.
\<close>

theorem broadcast_keeps_stale_channel:
  "broadcast_to_room stale_2 registry3 ''AB12CD'' (UserLeft ''x'' []) =
     (registry3, [(1, UserLeft ''x'' []), (3, UserLeft ''x'' [])], [(2, SendFailed)])
   \<and> registry3 ''AB12CD'' = Some [1, 2, 3]"
  by (simp add: registry3_eq broadcast_to_room_def send_json_def stale_2_def)

text \<open>
  C8, amended. \<^verbatim>\<open>broadcast_to_room\<close> attempts the delivery to every socket registered for
  the room, each on its own: the message is delivered to exactly the sockets whose send
  does not fail, in registration order; every failure is caught (and printed), none
  reaches the caller; and the registry is left unchanged.
\<close>

theorem broadcast_to_room_best_effort:
  "broadcast_to_room broken conns code msg =
     (conns,
      map (\<lambda>ws. (ws, msg)) (filter (\<lambda>ws. \<not> broken ws) (room_connections conns code)),
      map (\<lambda>ws. (ws, SendFailed)) (filter broken (room_connections conns code)))"
proof (cases "conns code")
  case None
  then show ?thesis by (simp add: broadcast_to_room_def room_connections_def)
next
  case (Some cs)
  have "broadcast_loop broken cs msg =
          (fst (broadcast_loop broken cs msg), snd (broadcast_loop broken cs msg))"
    by simp
  then show ?thesis
    using Some
    by (simp add: broadcast_to_room_def room_connections_def broadcast_loop_sent
        broadcast_loop_caught del: prod.collapse)
qed

section \<open>Casting votes\<close>




lemma save_vote_overflow_movie:
  "\<not> in_int64 mid \<Longrightarrow> save_vote db u mid c x t = (Inl OverflowError, db)"
  by (simp add: save_vote_def)

lemma save_vote_overflow_vote:
  "in_int64 mid \<Longrightarrow> \<not> in_int64 x \<Longrightarrow> save_vote db u mid c x t = (Inl OverflowError, db)"
  by (simp add: save_vote_def split: list.split)












lemma votes_ok_empty: "votes_ok empty_db"
  by (simp add: votes_ok_def empty_db_def)

lemma votes_ok_remove_participant:
  "votes_ok db \<Longrightarrow> votes_ok (snd (remove_participant db u c))"
  by (simp add: votes_ok_def remove_participant_def distinct_map_filter list_all_iff)

lemma votes_ok_join_room:
  "votes_ok db \<Longrightarrow> votes_ok (snd (join_room db c name rnd now))"
  by (simp add: votes_ok_def join_room_def Let_def)

lemma insert_movies_votes:
  "votes (snd (insert_movies db c ms)) = votes db \<and>
   votes_seq (snd (insert_movies db c ms)) = votes_seq db"
  by (induction db c ms rule: insert_movies.induct) simp_all

lemma votes_ok_add_movies: "votes_ok db \<Longrightarrow> votes_ok (snd (add_movies_to_room db c ms))"
  using insert_movies_votes [of db c ms]
  by (auto simp: votes_ok_def add_movies_to_room_def split: list.splits prod.splits sum.splits)

lemma votes_ok_create_room:
  "votes_ok db \<Longrightarrow> votes_ok (snd (create_room db rnd now frames))"
  by (simp add: votes_ok_def create_room_def split: sum.splits)








section \<open>Leaving a room\<close>








section \<open>Room codes\<close>

lemma choices_length: "length (choices population k rnd i) = k"
  by (simp add: choices_def)





lemma choices_zero: "choices (ascii_uppercase @ digits) 6 (rnd_of []) i = ''AAAAAA''"
  by (simp add: choices_def rnd_of_def ascii_uppercase_def digits_def upt_rec)

lemma stuck_db_eq:
  "stuck_db = \<lparr>rooms = [\<lparr>room_code = ''AAAAAA'', created_at = ''t0'', status = ''active''\<rparr>],
      participants = [], movies = [], votes = [], movies_seq = 0, votes_seq = 0,
      write_locked = False\<rparr>"
proof -
  have "generate_room_code empty_db (rnd_of []) 0 900 = Inr ''AAAAAA''"
    by (subst generate_room_code_unfold) (simp_all add: choices_zero room_exists_def empty_db_def)
  then show ?thesis by (simp add: stuck_db_def create_room_def empty_db_def)
qed

lemma stuck_exists: "room_exists stuck_db ''AAAAAA''"
  by (simp add: stuck_db_eq room_exists_def)

lemma choices_second:
  "choices (ascii_uppercase @ digits) 6 rnd_second 0 = ''AAAAAA''"
  "choices (ascii_uppercase @ digits) 6 rnd_second 6 = ''AB12CD''"
  by (simp_all add: choices_def rnd_second_def rnd_of_def ascii_uppercase_def digits_def upt_rec)




text \<open>The retry of the example returns the second draw.\<close>

lemma generate_room_code_second_draw:
  "generate_room_code stuck_db rnd_second 0 900 = Inr ''AB12CD''"
proof -
  have "generate_room_code stuck_db rnd_second 0 900
          = generate_room_code stuck_db rnd_second 6 899"
    by (subst generate_room_code_unfold) (simp_all add: choices_second stuck_exists)
  also have "\<dots> = Inr ''AB12CD''"
    by (subst generate_room_code_unfold)
      (simp_all add: choices_second stuck_db_eq room_exists_def)
  finally show ?thesis .
qed

section \<open>Joining a room\<close>

lemma drawn_user_id_nonempty: "drawn_user_id rnd \<noteq> []"
  using choices_length [of "ascii_lowercase @ digits" 16 rnd 0]
  by (auto simp: drawn_user_id_def)

lemma drawn_p: "drawn_user_id rnd_p = ''paaaaaaaaaaaaaaa''"
  by (simp add: drawn_user_id_def choices_p)

lemma drawn_q: "drawn_user_id rnd_q = ''qaaaaaaaaaaaaaaa''"
  by (simp add: drawn_user_id_def choices_q)


lemma lobby_ann_room: "room_exists lobby_ann ''AB12CD''"
  by (simp add: lobby_ann_eq room_exists_def)

lemma join_room_unknown:
  "\<not> room_exists d code \<Longrightarrow> join_room d code name rnd now = (Inr None, d)"
  by (simp add: join_room_def)

lemma join_room_locked:
  "room_exists d code \<Longrightarrow> write_locked d \<Longrightarrow>
   join_room d code name rnd now = (Inl OperationalError, d)"
  by (simp add: join_room_def Let_def)

lemma join_room_collision:
  "room_exists d code \<Longrightarrow> \<not> write_locked d \<Longrightarrow>
   drawn_user_id rnd \<in> set (map p_user_id (participants d)) \<Longrightarrow>
   join_room d code name rnd now = (Inl IntegrityError, d\<lparr>write_locked := True\<rparr>)"
  by (simp add: join_room_def drawn_user_id_def Let_def)

lemma join_room_fresh:
  "room_exists d code \<Longrightarrow> \<not> write_locked d \<Longrightarrow>
   drawn_user_id rnd \<notin> set (map p_user_id (participants d)) \<Longrightarrow>
   join_room d code name rnd now =
     (Inr (Some (drawn_user_id rnd)),
      d\<lparr>participants := participants d @
           [\<lparr>p_user_id = drawn_user_id rnd, p_username = name,
             p_room_code = code, p_joined_at = now\<rparr>]\<rparr>)"
  by (simp add: join_room_def drawn_user_id_def Let_def)

lemma endpoint_unknown:
  "\<not> room_exists (srv_db s) (jr_room_code req) \<Longrightarrow>
   join_room_endpoint broken s req rnd now = (HTTPException 404, s)"
  by (simp add: join_room_endpoint_def join_room_unknown)

lemma endpoint_fresh:
  assumes "room_exists (srv_db s) (jr_room_code req)" and "\<not> write_locked (srv_db s)"
    and "drawn_user_id rnd \<notin> set (map p_user_id (participants (srv_db s)))"
  shows "fst (join_room_endpoint broken s req rnd now) = Ok (drawn_user_id rnd)"
    and "srv_db (snd (join_room_endpoint broken s req rnd now)) =
          (srv_db s)\<lparr>participants := participants (srv_db s) @
               [\<lparr>p_user_id = drawn_user_id rnd, p_username = jr_username req,
                 p_room_code = jr_room_code req, p_joined_at = now\<rparr>]\<rparr>"
  using assms drawn_user_id_nonempty [of rnd]
  by (simp_all add: join_room_endpoint_def join_room_fresh Let_def split_def)

text \<open>
  On an unknown room code the join returns \<^verbatim>\<open>None\<close>, the store is unchanged and the
  endpoint answers 404, whatever the state of the store.
\<close>

lemma join_room_not_found:
  "\<not> room_exists (srv_db s) (jr_room_code req) \<Longrightarrow>
   join_room (srv_db s) (jr_room_code req) (jr_username req) rnd now = (Inr None, srv_db s)
   \<and> join_room_endpoint broken s req rnd now = (HTTPException 404, s)"
  by (simp add: join_room_unknown endpoint_unknown)

text \<open>
  C6. On a known room \<^verbatim>\<open>join_room\<close> should return a fresh unique identifier and record the
  membership. The identifier is drawn at random and inserted unchecked. With ann in the
  room under the id that the generator draws again for bob, the join raises
  \<^verbatim>\<open>IntegrityError\<close> and the endpoint answers 500: no identifier is returned and bob is not
  recorded. The method is left with its connection open, so the next join, for which an
  unused id is drawn, raises as well (database is locked).
\<close>

theorem join_room_collision_raises:
  "room_exists lobby_ann ''AB12CD''
   \<and> get_participants lobby_ann ''AB12CD'' = [(''paaaaaaaaaaaaaaa'', ''ann'')]
   \<and> drawn_user_id rnd_p = ''paaaaaaaaaaaaaaa''
   \<and> join_room lobby_ann ''AB12CD'' ''bob'' rnd_p ''t2'' = (Inl IntegrityError, lobby_ann_locked)
   \<and> fst (join_room_endpoint stale_2 (server_of lobby_ann)
            \<lparr>jr_room_code = ''AB12CD'', jr_username = ''bob''\<rparr> rnd_p ''t2'') = HTTPException 500
   \<and> get_participants lobby_ann_locked ''AB12CD'' = [(''paaaaaaaaaaaaaaa'', ''ann'')]
   \<and> drawn_user_id rnd_q = ''qaaaaaaaaaaaaaaa''
   \<and> join_room lobby_ann_locked ''AB12CD'' ''bob'' rnd_q ''t3''
       = (Inl OperationalError, lobby_ann_locked)
   \<and> fst (join_room_endpoint stale_2 (server_of lobby_ann_locked)
            \<lparr>jr_room_code = ''AB12CD'', jr_username = ''bob''\<rparr> rnd_q ''t3'') = HTTPException 500"
proof -
  have u: "\<not> write_locked lobby_ann" by (simp add: lobby_ann_eq)
  have c: "drawn_user_id rnd_p \<in> set (map p_user_id (participants lobby_ann))"
    by (simp add: drawn_p lobby_ann_eq)
  have j1: "join_room lobby_ann ''AB12CD'' ''bob'' rnd_p ''t2''
              = (Inl IntegrityError, lobby_ann_locked)"
    using join_room_collision [OF lobby_ann_room u c] by (simp add: lobby_ann_locked_eq)
  have lr: "room_exists lobby_ann_locked ''AB12CD''" and ll: "write_locked lobby_ann_locked"
    using lobby_ann_room by (simp_all add: lobby_ann_locked_eq room_exists_def)
  have j2: "join_room lobby_ann_locked ''AB12CD'' ''bob'' rnd_q ''t3''
              = (Inl OperationalError, lobby_ann_locked)"
    using lr ll by (rule join_room_locked)
  have e1: "fst (join_room_endpoint stale_2 (server_of lobby_ann)
            \<lparr>jr_room_code = ''AB12CD'', jr_username = ''bob''\<rparr> rnd_p ''t2'') = HTTPException 500"
    by (simp add: join_room_endpoint_def server_of_def j1)
  have e2: "fst (join_room_endpoint stale_2 (server_of lobby_ann_locked)
            \<lparr>jr_room_code = ''AB12CD'', jr_username = ''bob''\<rparr> rnd_q ''t3'') = HTTPException 500"
    by (simp add: join_room_endpoint_def server_of_def j2)
  have g1: "get_participants lobby_ann ''AB12CD'' = [(''paaaaaaaaaaaaaaa'', ''ann'')]"
    and g2: "get_participants lobby_ann_locked ''AB12CD'' = [(''paaaaaaaaaaaaaaa'', ''ann'')]"
    by (simp_all add: lobby_ann_locked_eq lobby_ann_eq get_participants_def)
  from lobby_ann_room g1 drawn_p j1 e1 g2 drawn_q j2 e2 show ?thesis by blast
qed

text \<open>
  Where the join does succeed: on a known room, with the write lock free and a drawn id
  that no participant has, the endpoint answers with the drawn 16-character id, the
  participant is appended to the room's participants, and user ids stay unique.
\<close>

lemma join_room_success:
  assumes "room_exists (srv_db s) (jr_room_code req)" and "\<not> write_locked (srv_db s)"
    and "drawn_user_id rnd \<notin> set (map p_user_id (participants (srv_db s)))"
  shows "fst (join_room_endpoint broken s req rnd now) = Ok (drawn_user_id rnd)"
    and "length (drawn_user_id rnd) = 16"
    and "get_participants (srv_db (snd (join_room_endpoint broken s req rnd now)))
           (jr_room_code req)
         = get_participants (srv_db s) (jr_room_code req) @ [(drawn_user_id rnd, jr_username req)]"
    and "participants_pk (srv_db s) \<Longrightarrow>
         participants_pk (srv_db (snd (join_room_endpoint broken s req rnd now)))"
proof -
  note e = endpoint_fresh [OF assms, of broken now]
  show "fst (join_room_endpoint broken s req rnd now) = Ok (drawn_user_id rnd)" by (rule e(1))
  show "length (drawn_user_id rnd) = 16" by (simp add: drawn_user_id_def choices_length)
  show "get_participants (srv_db (snd (join_room_endpoint broken s req rnd now)))
           (jr_room_code req)
         = get_participants (srv_db s) (jr_room_code req) @ [(drawn_user_id rnd, jr_username req)]"
    by (simp add: e(2) get_participants_def)
  show "participants_pk (srv_db (snd (join_room_endpoint broken s req rnd now)))"
    if "participants_pk (srv_db s)"
    using that assms(3) by (simp add: e(2) participants_pk_def)
qed

text \<open>
  Once the connection that was left open is finalised, the same join goes through.
\<close>

lemma join_room_after_finalize:
  "join_room (finalize_connections lobby_ann_locked) ''AB12CD'' ''bob'' rnd_q ''t3''
     = (Inr (Some ''qaaaaaaaaaaaaaaa''),
        lobby_ann\<lparr>participants := participants lobby_ann @
          [\<lparr>p_user_id = ''qaaaaaaaaaaaaaaa'', p_username = ''bob'',
            p_room_code = ''AB12CD'', p_joined_at = ''t3''\<rparr>]\<rparr>)"
proof -
  have f: "finalize_connections lobby_ann_locked = lobby_ann"
    by (simp add: finalize_connections_def lobby_ann_locked_eq lobby_ann_eq)
  have "drawn_user_id rnd_q \<notin> set (map p_user_id (participants lobby_ann))"
    by (simp add: drawn_q lobby_ann_eq)
  moreover have "\<not> write_locked lobby_ann" by (simp add: lobby_ann_eq)
  ultimately show ?thesis
    unfolding f using join_room_fresh [OF lobby_ann_room, of rnd_q "''bob''" "''t3''"]
    by (simp add: drawn_q)
qed

section \<open>Request validation\<close>


text \<open>
  A vote whose value or movie id is not an SQLite INTEGER is answered 500 by the
  handler's \<^verbatim>\<open>except\<close> branch, and nothing is stored.
\<close>

lemma vote_endpoint_overflow:
  assumes "\<not> in_int64 (vr_movie_id req) \<or> \<not> in_int64 (vr_vote req)"
  shows "vote_endpoint broken s req now = (HTTPException 500, s)"
proof -
  have "save_vote (srv_db s) (vr_user_id req) (vr_movie_id req)
               (vr_room_code req) (vr_vote req) now = (Inl OverflowError, srv_db s)"
    using assms save_vote_overflow_movie save_vote_overflow_vote by blast
  then show ?thesis by (simp add: vote_endpoint_def)
qed




end
